theory Spec2Isabelle
  imports Complex_Main
begin

section \<open>Python arithmetic used by the valuation model\<close>

text \<open>
  The valuation code of \<^verbatim>\<open>IP_portfolio_valuation.py\<close> computes with Python numbers.
  They are modelled as mathematical reals: rounding, overflow and the special values of
  binary floating point are outside this development. What is kept is every exception the
  arithmetic can raise on real operands: a true division by zero, and a zero base raised
  to a negative integer power, both of which raise \<^verbatim>\<open>ZeroDivisionError\<close>.
\<close>

datatype error = ZeroDivisionError

text \<open>\<^verbatim>\<open>x ** n\<close> for an integer exponent \<open>n\<close>.\<close>

definition py_pow :: "real \<Rightarrow> int \<Rightarrow> error + real" where
  "py_pow x n = (if x = 0 \<and> n < 0 then Inl ZeroDivisionError else Inr (x powi n))"

text \<open>\<^verbatim>\<open>x / y\<close>.\<close>

definition py_truediv :: "real \<Rightarrow> real \<Rightarrow> error + real" where
  "py_truediv x y = (if y = 0 then Inl ZeroDivisionError else Inr (x / y))"

text \<open>
  A list comprehension \<^verbatim>\<open>[f x for x in xs]\<close> whose body may raise: the elements are
  computed from left to right and the first exception ends the comprehension.
\<close>

fun list_comprehension :: "('a \<Rightarrow> error + 'b) \<Rightarrow> 'a list \<Rightarrow> error + 'b list" where
  "list_comprehension f [] = Inr []"
| "list_comprehension f (x # xs) =
     (case f x of
        Inl e \<Rightarrow> Inl e
      | Inr y \<Rightarrow> (case list_comprehension f xs of
                   Inl e \<Rightarrow> Inl e
                 | Inr ys \<Rightarrow> Inr (y # ys)))"

text \<open>\<^verbatim>\<open>np.sum\<close> of a list of numbers; the empty list sums to \<open>0\<close>.\<close>

definition np_sum :: "real list \<Rightarrow> real" where
  "np_sum xs = sum_list xs"

text \<open>
  The builtin \<^verbatim>\<open>sum\<close> over a generator: it starts from \<open>0\<close>, adds the items from left
  to right, and an exception raised while an item is produced ends the sum.
\<close>

fun py_sum :: "(error + real) list \<Rightarrow> real \<Rightarrow> error + real" where
  "py_sum [] acc = Inr acc"
| "py_sum (Inl e # xs) acc = Inl e"
| "py_sum (Inr v # xs) acc = py_sum xs (acc + v)"

section \<open>The asset classes\<close>

text \<open>
  \<^verbatim>\<open>class IPAsset\<close> with the three fields its constructor assigns. A subclass is a
  record extension, so that a method of the base class applies to every subclass.
\<close>

record IPAsset =
  name :: string
  cash_flows :: "real list"
  discount_rate :: real

definition IPAsset_init :: "string \<Rightarrow> real list \<Rightarrow> real \<Rightarrow> IPAsset" where
  "IPAsset_init nm cfs r = \<lparr> name = nm, cash_flows = cfs, discount_rate = r \<rparr>"

text \<open>
  One element of the comprehension in \<^verbatim>\<open>IPAsset.net_present_value\<close>:
  \<^verbatim>\<open>cf / (1 + self.discount_rate)**i\<close>.
\<close>

definition discounted :: "real \<Rightarrow> nat \<times> real \<Rightarrow> error + real" where
  "discounted r p =
     (case p of (i, cf) \<Rightarrow>
        (case py_pow (1 + r) (int i) of
           Inl e \<Rightarrow> Inl e
         | Inr d \<Rightarrow> py_truediv cf d))"

text \<open>
  \<^verbatim>\<open>IPAsset.net_present_value\<close>:
  \<^verbatim>\<open>np.sum([cf / (1 + self.discount_rate)**i for i, cf in enumerate(self.cash_flows, start=1)])\<close>.
\<close>

definition IPAsset_net_present_value :: "'a IPAsset_scheme \<Rightarrow> error + real" where
  "IPAsset_net_present_value self =
     (case list_comprehension (discounted (discount_rate self))
             (enumerate 1 (cash_flows self)) of
        Inl e \<Rightarrow> Inl e
      | Inr terms \<Rightarrow> Inr (np_sum terms))"

text \<open>\<^verbatim>\<open>class LicensedIP(IPAsset): pass\<close> inherits the constructor and the method.\<close>

definition LicensedIP_init :: "string \<Rightarrow> real list \<Rightarrow> real \<Rightarrow> IPAsset" where
  "LicensedIP_init nm cfs r = IPAsset_init nm cfs r"

text \<open>
  \<^verbatim>\<open>class InternalIP(IPAsset)\<close>: the constructor calls the base constructor with the
  empty list and then assigns the two fields of its own.
\<close>

record InternalIP = IPAsset +
  sale_value :: real
  years_until_sale :: int

definition InternalIP_init :: "string \<Rightarrow> real \<Rightarrow> int \<Rightarrow> real \<Rightarrow> InternalIP" where
  "InternalIP_init nm sv y r =
     IPAsset.extend (IPAsset_init nm [] r)
       (InternalIP.fields sv y)"

text \<open>
  \<^verbatim>\<open>InternalIP.net_present_value\<close>:
  \<^verbatim>\<open>self.sale_value / (1 + self.discount_rate)**self.years_until_sale\<close>.
\<close>

definition InternalIP_net_present_value :: "InternalIP \<Rightarrow> error + real" where
  "InternalIP_net_present_value self =
     (case py_pow (1 + discount_rate self) (years_until_sale self) of
        Inl e \<Rightarrow> Inl e
      | Inr d \<Rightarrow> py_truediv (sale_value self) d)"

text \<open>
  \<^verbatim>\<open>class SubscriptionIP(IPAsset)\<close>: the constructor scales the revenue sequence and
  hands the result to the base constructor; the method is inherited.
\<close>

definition SubscriptionIP_init :: "string \<Rightarrow> real list \<Rightarrow> real \<Rightarrow> real \<Rightarrow> IPAsset" where
  "SubscriptionIP_init nm total_app_cash_flows ip_allocation_percent r =
     (let allocated_flows = map (\<lambda>cf. cf * ip_allocation_percent) total_app_cash_flows
      in IPAsset_init nm allocated_flows r)"

text \<open>
  An object of one of the three concrete classes, and the method call
  \<^verbatim>\<open>ip.net_present_value()\<close> resolved by the class of the object.
\<close>

datatype asset = Licensed IPAsset | Internal InternalIP | Subscription IPAsset

fun net_present_value :: "asset \<Rightarrow> error + real" where
  "net_present_value (Licensed self) = IPAsset_net_present_value self"
| "net_present_value (Internal self) = InternalIP_net_present_value self"
| "net_present_value (Subscription self) = IPAsset_net_present_value self"

section \<open>The program's portfolio\<close>

text \<open>
  Lines 60 to 64 of the script build the three objects from the values read from the
  widgets and put them in a list, in this order.
\<close>

definition portfolio ::
  "real list \<Rightarrow> real \<Rightarrow> int \<Rightarrow> real list \<Rightarrow> real \<Rightarrow> real \<Rightarrow> asset list" where
  "portfolio licensed_cf internal_value sale_year total_app_cf allocation_pct r =
     (let licensed = LicensedIP_init ''Licensed IP'' licensed_cf r;
          internal = InternalIP_init ''Internal IP'' internal_value sale_year r;
          sub_ip = SubscriptionIP_init ''Subscription IP'' total_app_cf allocation_pct r
      in [Licensed licensed, Internal internal, Subscription sub_ip])"

text \<open>\<^verbatim>\<open>total_value = sum(ip.net_present_value() for ip in portfolio)\<close>.\<close>

definition total_value :: "asset list \<Rightarrow> error + real" where
  "total_value ips = py_sum (map net_present_value ips) 0"

section \<open>Method calls as steps on the object\<close>



section \<open>Auxiliary facts\<close>








section \<open>The base discounting algorithm\<close>



section \<open>The lump-sum valuation of Internal IP\<close>

lemma InternalIP_init_fields:
  "name (InternalIP_init nm sv y r) = nm"
  "cash_flows (InternalIP_init nm sv y r) = []"
  "discount_rate (InternalIP_init nm sv y r) = r"
  "sale_value (InternalIP_init nm sv y r) = sv"
  "years_until_sale (InternalIP_init nm sv y r) = y"
  by (simp_all add: InternalIP_init_def IPAsset_init_def IPAsset.extend_def InternalIP.fields_def)





section \<open>Subscription IP: the derived cash-flow sequence\<close>

lemma SubscriptionIP_init_fields:
  "name (SubscriptionIP_init nm revenue a r) = nm"
  "cash_flows (SubscriptionIP_init nm revenue a r) = map (\<lambda>cf. cf * a) revenue"
  "discount_rate (SubscriptionIP_init nm revenue a r) = r"
  by (simp_all add: SubscriptionIP_init_def IPAsset_init_def)

text \<open>
  Claim C3. The constructor of Subscription IP stores the revenue sequence with every
  entry multiplied by the allocation fraction, in the same order and of the same length,
  and the value of a Subscription IP object is the base method run on the object so
  built. Nothing here depends on the fraction lying between 0 and 1.
\<close>

theorem SubscriptionIP_init_cash_flows:
  "cash_flows (SubscriptionIP_init nm revenue a r) = map (\<lambda>cf. cf * a) revenue
   \<and> length (cash_flows (SubscriptionIP_init nm revenue a r)) = length revenue
   \<and> (\<forall>i<length revenue. cash_flows (SubscriptionIP_init nm revenue a r) ! i = revenue ! i * a)
   \<and> net_present_value (Subscription (SubscriptionIP_init nm revenue a r))
       = IPAsset_net_present_value (IPAsset_init nm (map (\<lambda>cf. cf * a) revenue) r)"
  by (simp add: SubscriptionIP_init_fields) (simp add: SubscriptionIP_init_def)

theorem SubscriptionIP_init_cash_flows_witness:
  "cash_flows (SubscriptionIP_init ''Subscription IP'' [50000, 52000, 54000] (1 / 5) (2 / 25))
     = [10000, 10400, 10800]
   \<and> cash_flows (SubscriptionIP_init ''Subscription IP'' [50000, 52000, 54000] (1 / 5) (2 / 25)) ! 1
     = 10400"
proof -
  let ?rev = "[50000, 52000, 54000] :: real list"
  let ?s = "SubscriptionIP_init ''Subscription IP'' ?rev (1 / 5) (2 / 25)"
  note fact = SubscriptionIP_init_cash_flows [of "''Subscription IP''" ?rev "1 / 5" "2 / 25"]
  from fact have whole: "cash_flows ?s = map (\<lambda>cf. cf * (1 / 5)) ?rev"
    by (rule conjunct1)
  from fact have "\<forall>i<length ?rev. cash_flows ?s ! i = ?rev ! i * (1 / 5)"
    by (elim conjE)
  moreover have "1 < length ?rev"
    by simp
  ultimately have "cash_flows ?s ! 1 = ?rev ! 1 * (1 / 5)"
    by blast
  with whole show ?thesis
    by simp
qed

section \<open>No discounting at rate zero\<close>




section \<open>Linearity in the allocation fraction\<close>





section \<open>A later sale is worth less\<close>



section \<open>The portfolio total\<close>

lemma total_value_three:
  "(total_value [x, y, z] = Inr t) =
     (\<exists>a b c. net_present_value x = Inr a \<and> net_present_value y = Inr b
            \<and> net_present_value z = Inr c \<and> t = a + b + c)"
proof -
  obtain u v w where
    "net_present_value x = u" "net_present_value y = v" "net_present_value z = w"
    by blast
  then show ?thesis
    by (cases u; cases v; cases w) (auto simp: total_value_def)
qed

text \<open>
  Claim C7. For a portfolio of one Licensed IP, one Internal IP and one Subscription IP,
  the total the program computes is a number exactly when the three calls of
  \<^verbatim>\<open>net_present_value\<close> return numbers, and it is then their sum. The portfolio the
  script builds from its inputs is of this form.
\<close>

theorem total_value_additive:
  "((total_value [Licensed l, Internal i, Subscription s] = Inr t) =
      (\<exists>a b c. net_present_value (Licensed l) = Inr a
             \<and> net_present_value (Internal i) = Inr b
             \<and> net_present_value (Subscription s) = Inr c
             \<and> t = a + b + c))
   \<and> ((total_value (portfolio licensed_cf internal_value sale_year total_app_cf allocation_pct r)
         = Inr t') =
      (\<exists>a b c.
          net_present_value (Licensed (LicensedIP_init ''Licensed IP'' licensed_cf r)) = Inr a
        \<and> net_present_value
            (Internal (InternalIP_init ''Internal IP'' internal_value sale_year r)) = Inr b
        \<and> net_present_value
            (Subscription (SubscriptionIP_init ''Subscription IP'' total_app_cf allocation_pct r))
            = Inr c
        \<and> t' = a + b + c))"
  by (simp only: portfolio_def Let_def total_value_three simp_thms)

theorem total_value_additive_witness:
  "total_value (portfolio [500, 625] 100 2 [1000, 1250] (1 / 2) (1 / 4)) = Inr (800 + 64 + 800)"
proof -
  let ?l = "LicensedIP_init ''Licensed IP'' [500, 625] (1 / 4)"
  let ?i = "InternalIP_init ''Internal IP'' 100 2 (1 / 4)"
  let ?s = "SubscriptionIP_init ''Subscription IP'' [1000, 1250] (1 / 2) (1 / 4)"
  have "net_present_value (Licensed ?l) = Inr 800"
    by (simp add: LicensedIP_init_def IPAsset_init_def IPAsset_net_present_value_def
        enumerate_eq_zip upt_rec discounted_def py_pow_def py_truediv_def np_sum_def
        power2_eq_square)
  moreover have "net_present_value (Internal ?i) = Inr 64"
    by (simp add: InternalIP_net_present_value_def InternalIP_init_fields py_pow_def
        py_truediv_def power2_eq_square)
  moreover have "net_present_value (Subscription ?s) = Inr 800"
    by (simp add: SubscriptionIP_init_def IPAsset_init_def IPAsset_net_present_value_def
        enumerate_eq_zip upt_rec discounted_def py_pow_def py_truediv_def np_sum_def
        power2_eq_square)
  ultimately show ?thesis
    using total_value_additive
      [where l = ?l and i = ?i and s = ?s and t = "800 + 64 + 800"
         and licensed_cf = "[500, 625]" and internal_value = 100 and sale_year = 2
         and total_app_cf = "[1000, 1250]" and allocation_pct = "1 / 2" and r = "1 / 4"
         and t' = "800 + 64 + 800"]
    by blast
qed

section \<open>Valuation has no effect on the object\<close>




section \<open>A worked valuation\<close>

text \<open>
  Claim C9. Three yearly cash flows of 1000 at a discount rate of 0.10 give a Licensed
  IP the value \<open>1000/1.1 + 1000/1.21 + 1000/1.331\<close>, which is 2486.85 to the cent.
\<close>

theorem LicensedIP_net_present_value_example:
  "\<exists>v. net_present_value (Licensed (LicensedIP_init ''Licensed IP'' [1000, 1000, 1000] 0.10))
         = Inr v
       \<and> v = 1000 / 1.1 + 1000 / 1.21 + 1000 / 1.331
       \<and> \<bar>v - 2486.85\<bar> < 0.005"
proof -
  have "net_present_value (Licensed (LicensedIP_init ''Licensed IP'' [1000, 1000, 1000] 0.10))
          = Inr (3310000 / 1331)"
    by (simp add: LicensedIP_init_def IPAsset_init_def IPAsset_net_present_value_def
        enumerate_eq_zip upt_rec discounted_def py_pow_def py_truediv_def np_sum_def
        eval_nat_numeral)
  moreover have "(3310000 / 1331 :: real) = 1000 / 1.1 + 1000 / 1.21 + 1000 / 1.331"
    by simp
  moreover have "\<bar>(3310000 / 1331 :: real) - 2486.85\<bar> < 0.005"
    by simp
  ultimately show ?thesis
    by blast
qed

section \<open>The empty cash-flow sequence\<close>

text \<open>
  Claim C10. On an empty cash-flow sequence the base method returns 0 at every discount
  rate: no term is computed, so nothing can raise, not even at the rate \<open>-1\<close>.
\<close>

theorem IPAsset_net_present_value_empty:
  fixes self :: IPAsset
  assumes "cash_flows self = []"
  shows "IPAsset_net_present_value self = Inr 0
       \<and> net_present_value (Licensed self) = Inr 0
       \<and> net_present_value (Subscription self) = Inr 0"
  using assms by (simp add: IPAsset_net_present_value_def np_sum_def)

theorem IPAsset_net_present_value_empty_witness:
  "cash_flows (IPAsset_init ''Licensed IP'' [] (- 1)) = []
   \<and> net_present_value (Licensed (IPAsset_init ''Licensed IP'' [] (- 1))) = Inr 0
   \<and> net_present_value (Subscription (SubscriptionIP_init ''Subscription IP'' [] (1 / 5) (- 1))) = Inr 0
   \<and> net_present_value (Licensed (IPAsset_init ''Licensed IP'' [1] (- 1))) = Inl ZeroDivisionError"
proof -
  have e1: "cash_flows (IPAsset_init ''Licensed IP'' [] (- 1)) = []"
    by (simp add: IPAsset_init_def)
  have e2: "cash_flows (SubscriptionIP_init ''Subscription IP'' [] (1 / 5) (- 1)) = []"
    by (simp add: SubscriptionIP_init_fields)
  have "net_present_value (Licensed (IPAsset_init ''Licensed IP'' [1] (- 1))) = Inl ZeroDivisionError"
    by (simp add: IPAsset_init_def IPAsset_net_present_value_def enumerate_eq_zip upt_rec
        discounted_def py_pow_def py_truediv_def)
  with IPAsset_net_present_value_empty [OF e1] IPAsset_net_present_value_empty [OF e2] e1
  show ?thesis
    by simp
qed

end
